theory Spec2Isabelle
  imports Complex_Main "HOL-Library.Word" "HOL-Library.Log_Nat"
begin

section \<open>The debounced sketch: railway_gap_filler.ino\<close>

text \<open>
  The sketch targets the Arduino Uno/Nano (ATmega328P), where \<open>int\<close> has 16 bits and
  \<open>long\<close> has 32. The two debounce counters are therefore 16-bit words read as two's
  complement (\<open>sint\<close>); \<open>++\<close> is word addition, so an increment at 32767 wraps to -32768
  (C++ leaves signed overflow undefined; the wrap-around is what the AVR's 16-bit
  addition does). On this target \<open>float\<close> and \<open>double\<close> are both the IEEE single
  format (binary32). A floating-point value is the real number it denotes, so the
  \<open>float\<close> variable \<open>distance\<close> is a real and its comparisons against the integer
  constants are exact; every floating-point operation rounds its exact result to
  binary32 (see \<open>binary32\<close> below). Serial output and the \<open>delay\<close> calls do not feed
  back into the control state and are left out, as is the trigger pulse written to
  \<open>TRIG_PIN\<close>.
\<close>

subsection \<open>Floating point on the target\<close>

text \<open>
  Rounding of a real number to binary32: 24 significant bits, round to nearest, ties to
  even. \<open>float_exponent x\<close> is the exponent \<open>e\<close> with \<open>2^e \<le> x < 2^(e+1)\<close> for positive
  \<open>x\<close>, the unit in the last place is \<open>2^(e-23)\<close>, and the value is rounded to a whole
  number of such units. The values the sketches compute lie far inside the normal
  range (between 0.017 and 4 * 10^7 in magnitude), so overflow and subnormal numbers
  do not arise.
\<close>

definition float_exponent :: "real \<Rightarrow> int" where
  "float_exponent x =
     (if 1 \<le> x then bitlen \<lfloor>x\<rfloor> - 1 else - bitlen (\<lceil>1 / x\<rceil> - 1))"

definition round_even :: "real \<Rightarrow> int" where
  "round_even m =
     (let f = \<lfloor>m\<rfloor>; r = m - real_of_int f
      in if r < 1 / 2 then f else if 1 / 2 < r then f + 1 else if even f then f else f + 1)"

definition binary32 :: "real \<Rightarrow> real" where
  "binary32 x =
     (if x = 0 then 0
      else (let ulp = 2 powi (float_exponent \<bar>x\<bar> - 23)
            in real_of_int (round_even (x / ulp)) * ulp))"

subsection \<open>Configuration parameters (lines 40-51)\<close>

definition THRESHOLD_DISTANCE :: int where "THRESHOLD_DISTANCE = 20"
definition MIN_DISTANCE :: int where "MIN_DISTANCE = 13"
definition MAX_DISTANCE :: int where "MAX_DISTANCE = 25"

definition SERVO_RETRACTED :: int where "SERVO_RETRACTED = 0"
definition SERVO_EXTENDED :: int where "SERVO_EXTENDED = 90"

definition DEBOUNCE_COUNT :: int where "DEBOUNCE_COUNT = 3"

subsection \<open>Global variables (lines 54-61) and the output pins\<close>

text \<open>
  \<open>servo1\<close> and \<open>servo2\<close> hold the angle last written to each servo; \<open>led_green\<close>,
  \<open>led_red\<close> and \<open>buzzer\<close> hold the level last written to pins 2, 3 and 4.
\<close>

record gap_filler =
  platformDeployed :: bool
  consecutiveDetections :: "16 word"
  consecutiveNoDetections :: "16 word"
  distance :: real
  servo1 :: int
  servo2 :: int
  led_green :: bool
  led_red :: bool
  buzzer :: bool

subsection \<open>The sensor\<close>

text \<open>
  \<open>pulseIn\<close> belongs to the Arduino core, not to the sketch. One reading of the sensor is
  a function from the timeout argument of the call (in microseconds; \<open>None\<close> for a call
  that passes no timeout) to the value \<open>pulseIn(ECHO_PIN, HIGH, ...)\<close> returns: the width
  of the echo pulse in microseconds, or 0 when no pulse was seen in time.
\<close>

type_synonym pulse_reader = "nat option \<Rightarrow> 32 word"

definition no_echo :: pulse_reader where
  "no_echo = (\<lambda>timeout. 0)"

text \<open>
  \<open>measureDistance\<close>, lines 177-201. In \<open>(duration * 0.0343) / 2\<close> the \<open>long\<close> is
  converted to floating point, the literal is the binary32 number nearest to 0.0343,
  and the product and the quotient are each rounded.
\<close>

definition measureDistance :: "pulse_reader \<Rightarrow> real" where
  "measureDistance pulseIn =
     (let duration = pulseIn (Some 30000);
          dist = binary32 (binary32 (binary32 (real_of_int (sint duration)) * binary32 0.0343) / 2)
      in if duration = 0 then 999 else dist)"

subsection \<open>Actuator sequencer\<close>

text \<open>\<open>playBeep\<close>, lines 262-266.\<close>

definition playBeep :: "int \<Rightarrow> gap_filler \<Rightarrow> gap_filler" where
  "playBeep duration s = (s\<lparr>buzzer := True\<rparr>)\<lparr>buzzer := False\<rparr>"

text \<open>The sweep of \<open>deployPlatform\<close>, lines 215-219: \<open>for (angle = ...; angle <= SERVO_EXTENDED; angle++)\<close>.\<close>

function sweep_extend :: "int \<Rightarrow> gap_filler \<Rightarrow> gap_filler" where
  "sweep_extend angle s =
     (if angle \<le> SERVO_EXTENDED
      then sweep_extend (angle + 1) (s\<lparr>servo1 := angle, servo2 := angle\<rparr>)
      else s)"
  by pat_completeness auto
termination
  by (relation "measure (\<lambda>(angle, s). nat (SERVO_EXTENDED + 1 - angle))") auto

text \<open>The sweep of \<open>retractPlatform\<close>, lines 241-245: \<open>for (angle = ...; angle >= SERVO_RETRACTED; angle--)\<close>.\<close>

function sweep_retract :: "int \<Rightarrow> gap_filler \<Rightarrow> gap_filler" where
  "sweep_retract angle s =
     (if angle \<ge> SERVO_RETRACTED
      then sweep_retract (angle - 1) (s\<lparr>servo1 := angle, servo2 := angle\<rparr>)
      else s)"
  by pat_completeness auto
termination
  by (relation "measure (\<lambda>(angle, s). nat (angle + 1 - SERVO_RETRACTED))") auto

declare sweep_extend.simps [simp del] sweep_retract.simps [simp del]

text \<open>\<open>deployPlatform\<close>, lines 204-231.\<close>

definition deployPlatform :: "gap_filler \<Rightarrow> gap_filler" where
  "deployPlatform s0 =
     (let s = playBeep 200 s0;
          s = s\<lparr>led_green := False\<rparr>;
          s = s\<lparr>led_red := True\<rparr>;
          s = sweep_extend SERVO_RETRACTED s;
          s = s\<lparr>platformDeployed := True\<rparr>;
          s = playBeep 100 s;
          s = playBeep 100 s
      in s)"

text \<open>\<open>retractPlatform\<close>, lines 234-259.\<close>

definition retractPlatform :: "gap_filler \<Rightarrow> gap_filler" where
  "retractPlatform s0 =
     (let s = playBeep 150 s0;
          s = sweep_retract SERVO_EXTENDED s;
          s = s\<lparr>platformDeployed := False\<rparr>;
          s = s\<lparr>led_green := True\<rparr>;
          s = s\<lparr>led_red := False\<rparr>;
          s = playBeep 100 s
      in s)"

subsection \<open>The control loop\<close>

text \<open>
  The state after \<open>setup\<close> (lines 73-111) on the initial values of the globals: servos
  retracted, green LED on, red LED off, buzzer silent after the two ready beeps.
\<close>

definition after_setup :: gap_filler where
  "after_setup = \<lparr> platformDeployed = False, consecutiveDetections = 0,
                   consecutiveNoDetections = 0, distance = 0,
                   servo1 = SERVO_RETRACTED, servo2 = SERVO_RETRACTED,
                   led_green = True, led_red = False, buzzer = False \<rparr>"

text \<open>
  One iteration of \<open>loop\<close>, lines 114-174, from the assignment to \<open>distance\<close> on:
  \<open>d\<close> is the value \<open>measureDistance()\<close> returned in this iteration.
\<close>

definition loop_body :: "real \<Rightarrow> gap_filler \<Rightarrow> gap_filler" where
  "loop_body d s0 =
     (let s = s0\<lparr>distance := d\<rparr> in
      if distance s \<ge> real_of_int MIN_DISTANCE \<and> distance s \<le> real_of_int THRESHOLD_DISTANCE then
        (let s = s\<lparr>consecutiveDetections := consecutiveDetections s + 1\<rparr>;
             s = s\<lparr>consecutiveNoDetections := 0\<rparr>
         in if sint (consecutiveDetections s) \<ge> DEBOUNCE_COUNT \<and> \<not> platformDeployed s
            then (deployPlatform s)\<lparr>consecutiveDetections := 0\<rparr>
            else s)
      else if distance s > real_of_int MAX_DISTANCE then
        (let s = s\<lparr>consecutiveNoDetections := consecutiveNoDetections s + 1\<rparr>;
             s = s\<lparr>consecutiveDetections := 0\<rparr>
         in if sint (consecutiveNoDetections s) \<ge> DEBOUNCE_COUNT \<and> platformDeployed s
            then (retractPlatform s)\<lparr>consecutiveNoDetections := 0\<rparr>
            else s)
      else
        s\<lparr>consecutiveDetections := 0, consecutiveNoDetections := 0\<rparr>)"

text \<open>One full iteration of \<open>loop\<close>: the sensor is read, then the body runs.\<close>

definition loop :: "pulse_reader \<Rightarrow> gap_filler \<Rightarrow> gap_filler" where
  "loop pulseIn s = loop_body (measureDistance pulseIn) s"

text \<open>The Arduino runtime calls \<open>loop\<close> again and again: one call per sample, oldest first.\<close>

fun run_samples :: "gap_filler \<Rightarrow> real list \<Rightarrow> gap_filler" where
  "run_samples s [] = s"
| "run_samples s (d # ds) = run_samples (loop_body d s) ds"

fun run_loop :: "gap_filler \<Rightarrow> pulse_reader list \<Rightarrow> gap_filler" where
  "run_loop s [] = s"
| "run_loop s (p # ps) = run_loop (loop p s) ps"

section \<open>The single-threshold sketch: src/unnamed/part_000\<close>

text \<open>
  Globals \<open>duration\<close> and \<open>distance\<close> are \<open>long\<close> (32 bits); \<open>platformServo\<close> holds the
  angle last written to the servo. The assignment \<open>distance = duration * 0.034 / 2\<close>
  computes in floating point, as \<open>measureDistance\<close> does, and converts the result to
  \<open>long\<close> by dropping the fraction.
\<close>

record simple_sketch =
  duration :: "32 word"
  distance_long :: "32 word"
  platformServo :: int

definition float_to_long :: "real \<Rightarrow> 32 word" where
  "float_to_long x = word_of_int (if 0 \<le> x then \<lfloor>x\<rfloor> else \<lceil>x\<rceil>)"

text \<open>The state after \<open>setup\<close>, lines 104-137.\<close>

definition after_setup_simple :: simple_sketch where
  "after_setup_simple = \<lparr> duration = 0, distance_long = 0, platformServo = 0 \<rparr>"

text \<open>One iteration of \<open>loop\<close>, lines 147-284.\<close>

definition loop_simple :: "pulse_reader \<Rightarrow> simple_sketch \<Rightarrow> simple_sketch" where
  "loop_simple pulseIn s0 =
     (let s = s0\<lparr>duration := pulseIn None\<rparr>;
          s = s\<lparr>distance_long :=
                float_to_long
                  (binary32 (binary32 (binary32 (real_of_int (sint (duration s))) * binary32 0.034) / 2))\<rparr>
      in if sint (distance_long s) > 0 \<and> sint (distance_long s) < 25
         then s\<lparr>platformServo := 90\<rparr>
         else s\<lparr>platformServo := 0\<rparr>)"

section \<open>Properties of the specification\<close>

subsection \<open>Vocabulary of the specification\<close>

text \<open>The closed detection band and the departure condition, as the specification words them.\<close>

definition in_band :: "real \<Rightarrow> bool" where
  "in_band d \<longleftrightarrow> real_of_int MIN_DISTANCE \<le> d \<and> d \<le> real_of_int THRESHOLD_DISTANCE"

definition beyond_max :: "real \<Rightarrow> bool" where
  "beyond_max d \<longleftrightarrow> real_of_int MAX_DISTANCE < d"

text \<open>The number of most recent samples, counted back from the last, that all satisfy \<open>P\<close>.\<close>

definition trailing :: "('a \<Rightarrow> bool) \<Rightarrow> 'a list \<Rightarrow> nat" where
  "trailing P xs = length (takeWhile P (rev xs))"

text \<open>
  While the platform is retracted the detection counter is 0, 1 or 2 and never exceeds the
  length of the current run of in-band samples; while it is deployed the same holds of the
  no-detection counter and the current run of samples beyond \<open>MAX_DISTANCE\<close>.
\<close>

definition pending_inv :: "real list \<Rightarrow> gap_filler \<Rightarrow> bool" where
  "pending_inv ds s \<longleftrightarrow>
     (if platformDeployed s
      then consecutiveNoDetections s \<in> {0, 1, 2} \<and>
           unat (consecutiveNoDetections s) \<le> trailing beyond_max ds
      else consecutiveDetections s \<in> {0, 1, 2} \<and>
           unat (consecutiveDetections s) \<le> trailing in_band ds)"

text \<open>
  The contract of the range sampler, as the specification words it, in exact arithmetic:
  on a timeout (a round-trip duration of zero) the sentinel 999, otherwise the duration
  times 0.0343 cm per microsecond, halved for the round trip.
\<close>

definition contract_distance :: "32 word \<Rightarrow> real" where
  "contract_distance echo_time =
     (if echo_time = 0 then 999 else real_of_int (sint echo_time) * 0.0343 / 2)"

subsection \<open>Rounding to binary32\<close>

text \<open>Rounding changes a value by at most one part in \<open>2^24\<close>.\<close>

lemma binary32_zero: "binary32 0 = 0"
  by (simp add: binary32_def)

lemma round_even_error: "\<bar>real_of_int (round_even m) - m\<bar> \<le> 1 / 2"
  unfolding round_even_def Let_def by (auto; linarith)

lemma float_exponent_le:
  assumes "0 < x"
  shows "2 powi (float_exponent x) \<le> x"
proof (cases "1 \<le> x")
  case True
  then have pos: "0 < \<lfloor>x\<rfloor>" by linarith
  then have b1: "1 \<le> bitlen \<lfloor>x\<rfloor>"
    using bitlen_eq_zero_iff [of "\<lfloor>x\<rfloor>"] bitlen_nonneg [of "\<lfloor>x\<rfloor>"] by linarith
  from bitlen_bounds [OF pos] have "(2::int) ^ nat (bitlen \<lfloor>x\<rfloor> - 1) \<le> \<lfloor>x\<rfloor>" ..
  then have "real_of_int (2 ^ nat (bitlen \<lfloor>x\<rfloor> - 1)) \<le> real_of_int \<lfloor>x\<rfloor>"
    by (simp only: of_int_le_iff)
  moreover have "real_of_int \<lfloor>x\<rfloor> \<le> x"
    by (rule of_int_floor_le)
  ultimately have "real_of_int (2 ^ nat (bitlen \<lfloor>x\<rfloor> - 1)) \<le> x"
    by (rule order_trans)
  then have "(2::real) ^ nat (bitlen \<lfloor>x\<rfloor> - 1) \<le> x"
    by simp
  moreover have "(2::real) powi (bitlen \<lfloor>x\<rfloor> - 1) = 2 ^ nat (bitlen \<lfloor>x\<rfloor> - 1)"
    using b1 by (simp add: power_int_def)
  ultimately show ?thesis
    using True by (simp add: float_exponent_def)
next
  case False
  with assms have y: "1 < 1 / x" by simp
  define m where "m = \<lceil>1 / x\<rceil> - 1"
  from y have pos: "0 < m" unfolding m_def by linarith
  from bitlen_bounds [OF pos] have "m < 2 ^ nat (bitlen m)" ..
  then have "m + 1 \<le> 2 ^ nat (bitlen m)" by simp
  then have "real_of_int (m + 1) \<le> real_of_int (2 ^ nat (bitlen m))"
    by (simp only: of_int_le_iff)
  moreover have "1 / x \<le> real_of_int (m + 1)"
    unfolding m_def by (simp add: le_of_int_ceiling)
  ultimately have "1 / x \<le> real_of_int (2 ^ nat (bitlen m))"
    by (rule order_trans [rotated])
  then have "1 / x \<le> 2 ^ nat (bitlen m)"
    by simp
  with assms have "1 \<le> x * 2 ^ nat (bitlen m)"
    by (simp add: field_simps)
  then have "1 / 2 ^ nat (bitlen m) \<le> x"
    by (simp add: field_simps)
  moreover have "(2::real) powi (- bitlen m) = 1 / 2 ^ nat (bitlen m)"
    using bitlen_nonneg [of m] by (simp add: power_int_def field_simps)
  ultimately show ?thesis
    using False by (simp add: float_exponent_def m_def)
qed

lemma binary32_error: "\<bar>binary32 x - x\<bar> \<le> \<bar>x\<bar> / 2 ^ 24"
proof (cases "x = 0")
  case True
  then show ?thesis by (simp add: binary32_def)
next
  case False
  define e where "e = float_exponent \<bar>x\<bar>"
  define ulp :: real where "ulp = 2 powi (e - 23)"
  have ulp_pos: "0 < ulp" by (simp add: ulp_def)
  have val: "binary32 x = real_of_int (round_even (x / ulp)) * ulp"
    using False by (simp add: binary32_def ulp_def e_def Let_def)
  have "binary32 x - x = (real_of_int (round_even (x / ulp)) - x / ulp) * ulp"
    using ulp_pos by (simp add: val field_simps)
  then have "\<bar>binary32 x - x\<bar> = \<bar>real_of_int (round_even (x / ulp)) - x / ulp\<bar> * ulp"
    using ulp_pos by (simp add: abs_mult)
  also have "\<dots> \<le> (1 / 2) * ulp"
    using round_even_error [of "x / ulp"] ulp_pos by (intro mult_right_mono) simp_all
  also have "(1 / 2) * ulp = 2 powi e / 2 ^ 24"
    by (simp add: ulp_def power_int_diff)
  also have "\<dots> \<le> \<bar>x\<bar> / 2 ^ 24"
    using float_exponent_le [of "\<bar>x\<bar>"] False by (simp add: e_def divide_right_mono)
  finally show ?thesis .
qed

lemma binary32_0343: "binary32 0.0343 = 9207336 / 2 ^ 28"
  by code_simp
lemma binary32_034: "binary32 0.034 = 9126806 / 2 ^ 28"
  by code_simp

lemma binary32_nonneg: "0 \<le> x \<Longrightarrow> 0 \<le> binary32 x"
  using binary32_error [of x] by (simp add: abs_if split: if_splits)

lemma conversion_product_error:
  "\<bar>binary32 n * k - n * k\<bar> \<le> \<bar>n * k\<bar> / 2 ^ 24"
proof -
  have "\<bar>binary32 n * k - n * k\<bar> = \<bar>binary32 n - n\<bar> * \<bar>k\<bar>"
    by (simp add: abs_mult [symmetric] algebra_simps)
  also have "\<dots> \<le> (\<bar>n\<bar> / 2 ^ 24) * \<bar>k\<bar>"
    by (intro mult_right_mono binary32_error) simp
  finally show ?thesis by (simp add: abs_mult)
qed

lemma halved_error:
  assumes "\<bar>y - t\<bar> \<le> \<bar>t\<bar> / 2 ^ 24"
  shows "\<bar>binary32 (binary32 y / 2) - t / 2\<bar> \<le> \<bar>t\<bar> / 2 ^ 23"
proof -
  define p where "p = binary32 y"
  define q where "q = binary32 (p / 2)"
  have 1: "\<bar>p - y\<bar> \<le> \<bar>y\<bar> / 16777216"
    using binary32_error [of y] by (simp add: p_def)
  have 2: "\<bar>q - p / 2\<bar> \<le> \<bar>p / 2\<bar> / 16777216"
    using binary32_error [of "p / 2"] by (simp add: q_def)
  have 0: "\<bar>y - t\<bar> \<le> \<bar>t\<bar> / 16777216"
    using assms by simp
  have "\<bar>q - t / 2\<bar> \<le> \<bar>t\<bar> / 8388608"
    using 0 1 2 by linarith
  then show ?thesis by (simp add: p_def q_def)
qed

text \<open>
  The floating-point expression of both sketches, \<open>n * k / 2\<close> with \<open>n\<close> converted from
  \<open>long\<close>, against the exact product.
\<close>

lemma scaled_halved_error:
  "\<bar>binary32 (binary32 (binary32 n * k) / 2) - n * k / 2\<bar> \<le> \<bar>n * k\<bar> / 2 ^ 23"
  by (rule halved_error [OF conversion_product_error])

lemma measured_error:
  "\<bar>binary32 (binary32 (binary32 n * binary32 0.0343) / 2) - n * 0.0343 / 2\<bar>
     \<le> \<bar>n * 0.0343 / 2\<bar> / 2 ^ 21"
proof -
  have "\<bar>binary32 (binary32 (binary32 n * (9207336 / 2 ^ 28)) / 2) - n * (9207336 / 2 ^ 28) / 2\<bar>
          \<le> \<bar>n * (9207336 / 2 ^ 28)\<bar> / 2 ^ 23"
    by (rule scaled_halved_error)
  then show ?thesis
    unfolding binary32_0343 by (simp add: abs_if split: if_splits)
qed

lemma simple_error:
  "\<bar>binary32 (binary32 (binary32 n * binary32 0.034) / 2) - n * 0.034 / 2\<bar>
     \<le> \<bar>n * 0.034 / 2\<bar> / 2 ^ 21"
proof -
  have "\<bar>binary32 (binary32 (binary32 n * (9126806 / 2 ^ 28)) / 2) - n * (9126806 / 2 ^ 28) / 2\<bar>
          \<le> \<bar>n * (9126806 / 2 ^ 28)\<bar> / 2 ^ 23"
    by (rule scaled_halved_error)
  then show ?thesis
    unfolding binary32_034 by (simp add: abs_if split: if_splits)
qed

text \<open>
  For an echo of up to one second the single-threshold sketch stores the exact whole
  number of centimetres, \<open>17 * n div 1000\<close>, or a neighbour of it.
\<close>

lemma simple_whole_cm:
  assumes "0 \<le> n" "n \<le> 1000000"
  shows "\<bar>sint (float_to_long
            (binary32 (binary32 (binary32 (real_of_int n) * binary32 0.034) / 2)))
          - n * 17 div 1000\<bar> \<le> 1"
proof -
  define q where "q = binary32 (binary32 (binary32 (real_of_int n) * binary32 0.034) / 2)"
  define x where "x = real_of_int (n * 17) / real_of_int 1000"
  have x: "x = real_of_int n * 0.034 / 2"
    by (simp add: x_def)
  have "0 \<le> binary32 (real_of_int n) * binary32 0.034"
    using assms by (intro mult_nonneg_nonneg binary32_nonneg) simp_all
  then have q0: "0 \<le> q"
    unfolding q_def by (intro binary32_nonneg divide_nonneg_nonneg binary32_nonneg) simp_all
  have "\<bar>q - x\<bar> \<le> \<bar>x\<bar> / 2 ^ 21"
    unfolding q_def x by (rule simple_error)
  moreover have "0 \<le> x" "x \<le> 17000"
    using assms by (simp_all add: x_def)
  ultimately have close: "x - 1 < q" "q < x + 1"
    by (simp_all add: abs_if split: if_splits)
  have fx: "\<lfloor>x\<rfloor> = n * 17 div 1000"
    unfolding x_def by (rule floor_divide_of_int_eq)
  have lo: "x - 1 \<le> q" and hi: "q \<le> x + 1"
    using close by simp_all
  have "\<lfloor>x - 1\<rfloor> \<le> \<lfloor>q\<rfloor>"
    using lo by (rule floor_mono)
  moreover have "\<lfloor>q\<rfloor> \<le> \<lfloor>x + 1\<rfloor>"
    using hi by (rule floor_mono)
  ultimately have near: "\<bar>\<lfloor>q\<rfloor> - n * 17 div 1000\<bar> \<le> 1"
    using fx by simp
  have "0 \<le> \<lfloor>q\<rfloor>" using q0 by simp
  moreover have "\<lfloor>q\<rfloor> \<le> 17001"
    using close \<open>x \<le> 17000\<close> by (simp add: floor_le_iff)
  ultimately have "sint (word_of_int \<lfloor>q\<rfloor> :: 32 word) = \<lfloor>q\<rfloor>"
    unfolding sint_sbintrunc' by (intro signed_take_bit_int_eq_self) simp_all
  with near q0 show ?thesis
    by (simp add: float_to_long_def q_def)
qed

text \<open>The expression at the pulse widths used below, evaluated.\<close>

lemma eval_1000:
  "binary32 (binary32 (binary32 (real_of_int (sint (1000 :: 32 word))) * binary32 0.0343) / 2)
     = 8991539 / 2 ^ 19"
  by code_simp

lemma eval_554647:
  "float_to_long
     (binary32 (binary32 (binary32 (real_of_int (sint (554647 :: 32 word))) * binary32 0.034) / 2))
     = 9429"
  by code_simp

lemma eval_30:
  "float_to_long
     (binary32 (binary32 (binary32 (real_of_int (sint (30 :: 32 word))) * binary32 0.034) / 2))
     = 0"
  by code_simp

lemma eval_600:
  "float_to_long
     (binary32 (binary32 (binary32 (real_of_int (sint (600 :: 32 word))) * binary32 0.034) / 2))
     = 10"
  by code_simp

lemma eval_1800:
  "float_to_long
     (binary32 (binary32 (binary32 (real_of_int (sint (1800 :: 32 word))) * binary32 0.034) / 2))
     = 30"
  by code_simp

lemma eval_1471:
  "float_to_long
     (binary32 (binary32 (binary32 (real_of_int (sint (1471 :: 32 word))) * binary32 0.034) / 2))
     = 25"
  by code_simp

subsection \<open>Basic facts about the sequencer and one iteration\<close>

lemmas config_defs =
  THRESHOLD_DISTANCE_def MIN_DISTANCE_def MAX_DISTANCE_def
  SERVO_RETRACTED_def SERVO_EXTENDED_def DEBOUNCE_COUNT_def

lemma sweep_extend_done:
  "angle \<le> SERVO_EXTENDED \<Longrightarrow>
   sweep_extend angle s = s\<lparr>servo1 := SERVO_EXTENDED, servo2 := SERVO_EXTENDED\<rparr>"
proof (induction angle s rule: sweep_extend.induct)
  case (1 angle s)
  show ?case
  proof (cases "angle + 1 \<le> SERVO_EXTENDED")
    case True
    with 1 show ?thesis by (subst sweep_extend.simps) simp
  next
    case False
    with 1 have "angle = SERVO_EXTENDED" by simp
    then show ?thesis
      by (subst sweep_extend.simps, subst sweep_extend.simps) simp
  qed
qed

lemma sweep_retract_done:
  "SERVO_RETRACTED \<le> angle \<Longrightarrow>
   sweep_retract angle s = s\<lparr>servo1 := SERVO_RETRACTED, servo2 := SERVO_RETRACTED\<rparr>"
proof (induction angle s rule: sweep_retract.induct)
  case (1 angle s)
  show ?case
  proof (cases "SERVO_RETRACTED \<le> angle - 1")
    case True
    with 1 show ?thesis by (subst sweep_retract.simps) simp
  next
    case False
    with 1 have "angle = SERVO_RETRACTED" by simp
    then show ?thesis
      by (subst sweep_retract.simps, subst sweep_retract.simps) simp
  qed
qed

lemma deployPlatform_eq:
  "deployPlatform s =
     s\<lparr>platformDeployed := True, servo1 := SERVO_EXTENDED, servo2 := SERVO_EXTENDED,
       led_green := False, led_red := True, buzzer := False\<rparr>"
  by (simp add: deployPlatform_def playBeep_def sweep_extend_done SERVO_RETRACTED_def SERVO_EXTENDED_def)

lemma retractPlatform_eq:
  "retractPlatform s =
     s\<lparr>platformDeployed := False, servo1 := SERVO_RETRACTED, servo2 := SERVO_RETRACTED,
       led_green := True, led_red := False, buzzer := False\<rparr>"
  by (simp add: retractPlatform_def playBeep_def sweep_retract_done SERVO_RETRACTED_def SERVO_EXTENDED_def)

lemma run_samples_snoc: "run_samples s (ds @ [d]) = loop_body d (run_samples s ds)"
  by (induction ds arbitrary: s) simp_all

lemma run_loop_snoc: "run_loop s (ps @ [p]) = loop p (run_loop s ps)"
  by (induction ps arbitrary: s) simp_all

lemma run_loop_samples: "run_loop s ps = run_samples s (map measureDistance ps)"
  by (induction ps arbitrary: s) (simp_all add: loop_def)

lemma in_band_not_beyond: "in_band d \<Longrightarrow> \<not> beyond_max d"
  by (simp add: in_band_def beyond_max_def config_defs)

text \<open>The three branches of one iteration, with the sequencer's sweeps carried out.\<close>

lemma loop_body_in_band:
  "in_band d \<Longrightarrow> loop_body d s =
     (if 3 \<le> sint (consecutiveDetections s + 1) \<and> \<not> platformDeployed s
      then s\<lparr>platformDeployed := True, consecutiveDetections := 0, consecutiveNoDetections := 0,
             distance := d, servo1 := 90, servo2 := 90,
             led_green := False, led_red := True, buzzer := False\<rparr>
      else s\<lparr>consecutiveDetections := consecutiveDetections s + 1,
             consecutiveNoDetections := 0, distance := d\<rparr>)"
  by (simp add: loop_body_def in_band_def deployPlatform_eq config_defs Let_def)

lemma loop_body_beyond_max:
  "beyond_max d \<Longrightarrow> loop_body d s =
     (if 3 \<le> sint (consecutiveNoDetections s + 1) \<and> platformDeployed s
      then s\<lparr>platformDeployed := False, consecutiveDetections := 0, consecutiveNoDetections := 0,
             distance := d, servo1 := 0, servo2 := 0,
             led_green := True, led_red := False, buzzer := False\<rparr>
      else s\<lparr>consecutiveDetections := 0,
             consecutiveNoDetections := consecutiveNoDetections s + 1, distance := d\<rparr>)"
  by (simp add: loop_body_def beyond_max_def retractPlatform_eq config_defs Let_def)

lemma loop_body_between:
  "\<not> in_band d \<Longrightarrow> \<not> beyond_max d \<Longrightarrow> loop_body d s =
      s\<lparr>consecutiveDetections := 0, consecutiveNoDetections := 0, distance := d\<rparr>"
  by (auto simp add: loop_body_def beyond_max_def in_band_def config_defs Let_def)

lemma trailing_snoc: "trailing P (xs @ [x]) = (if P x then Suc (trailing P xs) else 0)"
  by (simp add: trailing_def)

lemmas eval_defs =
  loop_body_def deployPlatform_eq retractPlatform_eq config_defs after_setup_def
  in_band_def beyond_max_def trailing_def

subsection \<open>The counter that gates the pending transition\<close>

lemma pending_inv_step:
  assumes "pending_inv ds s"
  shows "pending_inv (ds @ [d]) (loop_body d s)"
proof (cases "in_band d")
  case True
  with assms show ?thesis
    by (auto simp: pending_inv_def loop_body_in_band trailing_snoc in_band_not_beyond)
next
  case nb: False
  show ?thesis
  proof (cases "beyond_max d")
    case True
    with assms nb show ?thesis
      by (auto simp: pending_inv_def loop_body_beyond_max trailing_snoc)
  next
    case False
    with assms nb show ?thesis
      by (auto simp: pending_inv_def loop_body_between trailing_snoc)
  qed
qed

lemma pending_inv_run: "pending_inv ds (run_samples after_setup ds)"
proof (induction ds rule: rev_induct)
  case Nil
  show ?case by (simp add: pending_inv_def after_setup_def)
next
  case (snoc d ds)
  then show ?case by (simp add: run_samples_snoc pending_inv_step)
qed

subsection \<open>Hysteresis\<close>

text \<open>
  Claim C1. Run the loop from the state after initialisation on any sequence of distance
  samples \<open>ds\<close> and then on one more sample \<open>d\<close>. If that last iteration changes the state
  from retracted to deployed, the last \<open>DEBOUNCE_COUNT\<close> samples (the current one
  included) all lie in the closed band from \<open>MIN_DISTANCE\<close> to \<open>THRESHOLD_DISTANCE\<close>; if it
  changes the state from deployed to retracted, the last \<open>DEBOUNCE_COUNT\<close> samples are all
  strictly greater than \<open>MAX_DISTANCE\<close>.
\<close>

theorem hysteresis:
  "(\<not> platformDeployed (run_samples after_setup ds) \<and>
    platformDeployed (loop_body d (run_samples after_setup ds))
      \<longrightarrow> nat DEBOUNCE_COUNT \<le> trailing in_band (ds @ [d])) \<and>
   (platformDeployed (run_samples after_setup ds) \<and>
    \<not> platformDeployed (loop_body d (run_samples after_setup ds))
      \<longrightarrow> nat DEBOUNCE_COUNT \<le> trailing beyond_max (ds @ [d]))"
proof -
  define s where "s = run_samples after_setup ds"
  have inv: "pending_inv ds s"
    unfolding s_def by (rule pending_inv_run)
  have up: "nat DEBOUNCE_COUNT \<le> trailing in_band (ds @ [d])"
    if "\<not> platformDeployed s" "platformDeployed (loop_body d s)"
  proof -
    have band: "in_band d"
    proof (rule ccontr)
      assume "\<not> in_band d"
      with that show False
        by (cases "beyond_max d") (simp_all add: loop_body_beyond_max loop_body_between)
    qed
    with that inv show ?thesis
      by (auto simp: pending_inv_def loop_body_in_band trailing_snoc DEBOUNCE_COUNT_def
               split: if_splits)
  qed
  have down: "nat DEBOUNCE_COUNT \<le> trailing beyond_max (ds @ [d])"
    if "platformDeployed s" "\<not> platformDeployed (loop_body d s)"
  proof -
    have far: "beyond_max d"
    proof (rule ccontr)
      assume "\<not> beyond_max d"
      with that show False
        by (cases "in_band d") (simp_all add: loop_body_in_band loop_body_between)
    qed
    with that inv show ?thesis
      by (auto simp: pending_inv_def loop_body_beyond_max trailing_snoc DEBOUNCE_COUNT_def
               split: if_splits)
  qed
  from up down show ?thesis
    unfolding s_def by blast
qed

theorem hysteresis_witness:
  "\<not> platformDeployed (run_samples after_setup [18, 18]) \<and>
   platformDeployed (loop_body 18 (run_samples after_setup [18, 18])) \<and>
   nat DEBOUNCE_COUNT \<le> trailing in_band ([18, 18] @ [18]) \<and>
   platformDeployed (run_samples after_setup [18, 18, 18, 30, 30]) \<and>
   \<not> platformDeployed (loop_body 30 (run_samples after_setup [18, 18, 18, 30, 30])) \<and>
   nat DEBOUNCE_COUNT \<le> trailing beyond_max ([18, 18, 18, 30, 30] @ [30])"
proof -
  have a: "\<not> platformDeployed (run_samples after_setup [18, 18]) \<and>
           platformDeployed (loop_body 18 (run_samples after_setup [18, 18]))"
    by (simp add: eval_defs)
  have b: "platformDeployed (run_samples after_setup [18, 18, 18, 30, 30]) \<and>
           \<not> platformDeployed (loop_body 30 (run_samples after_setup [18, 18, 18, 30, 30]))"
    by (simp add: eval_defs)
  from a b hysteresis [of "[18, 18]" 18] hysteresis [of "[18, 18, 18, 30, 30]" 30]
  show ?thesis by blast
qed

subsection \<open>Readings without echo\<close>

lemma measureDistance_no_echo: "measureDistance no_echo = 999"
  by (simp add: measureDistance_def no_echo_def)

lemma beyond_max_sentinel: "beyond_max 999"
  by (simp add: beyond_max_def MAX_DISTANCE_def)

lemma timeouts_retract:
  assumes "pending_inv ds s"
  shows "\<not> platformDeployed (run_samples s [999, 999, 999])"
proof (cases "platformDeployed s")
  case True
  with assms have "consecutiveNoDetections s \<in> {0, 1, 2}"
    by (simp add: pending_inv_def)
  with True show ?thesis
    by (auto simp: loop_body_beyond_max beyond_max_sentinel)
next
  case False
  then show ?thesis
    by (simp add: loop_body_beyond_max beyond_max_sentinel)
qed

text \<open>
  Claim C2. A reading without echo is treated as "no train" in both sketches, whatever the
  state before it. In the debounced sketch it yields the sentinel 999, which is strictly
  greater than \<open>MAX_DISTANCE\<close>: the iteration zeroes the detection counter, advances
  the no-detection counter (or retracts), and leaves the platform deployed only if it was
  deployed before and the retraction count is not yet reached; after \<open>DEBOUNCE_COUNT\<close>
  such readings in a row, from any state the loop can reach, the platform is retracted.
  In the single-threshold sketch it yields distance 0 and the servo is commanded to 0.
\<close>

theorem timeout_is_no_train:
  "measureDistance no_echo = 999 \<and>
   real_of_int MAX_DISTANCE < measureDistance no_echo \<and>
   consecutiveDetections (loop no_echo s) = 0 \<and>
   consecutiveNoDetections (loop no_echo s) =
     (if platformDeployed s \<and> DEBOUNCE_COUNT \<le> sint (consecutiveNoDetections s + 1)
      then 0 else consecutiveNoDetections s + 1) \<and>
   platformDeployed (loop no_echo s) =
     (platformDeployed s \<and> sint (consecutiveNoDetections s + 1) < DEBOUNCE_COUNT) \<and>
   \<not> platformDeployed
       (run_loop (run_loop after_setup ps) (replicate (nat DEBOUNCE_COUNT) no_echo)) \<and>
   duration (loop_simple no_echo t) = 0 \<and>
   distance_long (loop_simple no_echo t) = 0 \<and>
   platformServo (loop_simple no_echo t) = 0"
proof -
  have step: "loop no_echo s = loop_body 999 s"
    by (simp add: loop_def measureDistance_no_echo)
  have three: "replicate (nat DEBOUNCE_COUNT) no_echo = [no_echo, no_echo, no_echo]"
    by (simp add: DEBOUNCE_COUNT_def numeral_3_eq_3)
  have "pending_inv (map measureDistance ps) (run_loop after_setup ps)"
    by (simp add: run_loop_samples pending_inv_run)
  then have "\<not> platformDeployed (run_samples (run_loop after_setup ps) [999, 999, 999])"
    by (rule timeouts_retract)
  then have tends: "\<not> platformDeployed
       (run_loop (run_loop after_setup ps) (replicate (nat DEBOUNCE_COUNT) no_echo))"
    by (simp add: three loop_def measureDistance_no_echo)
  have simple: "duration (loop_simple no_echo t) = 0 \<and>
   distance_long (loop_simple no_echo t) = 0 \<and>
   platformServo (loop_simple no_echo t) = 0"
    by (simp add: loop_simple_def no_echo_def float_to_long_def binary32_zero)
  have far: "real_of_int MAX_DISTANCE < measureDistance no_echo"
    by (simp add: measureDistance_no_echo MAX_DISTANCE_def)
  have body: "consecutiveDetections (loop no_echo s) = 0 \<and>
   consecutiveNoDetections (loop no_echo s) =
     (if platformDeployed s \<and> DEBOUNCE_COUNT \<le> sint (consecutiveNoDetections s + 1)
      then 0 else consecutiveNoDetections s + 1) \<and>
   platformDeployed (loop no_echo s) =
     (platformDeployed s \<and> sint (consecutiveNoDetections s + 1) < DEBOUNCE_COUNT)"
    by (auto simp: step loop_body_beyond_max beyond_max_sentinel DEBOUNCE_COUNT_def)
  from measureDistance_no_echo far body tends simple show ?thesis
    by blast
qed

subsection \<open>Bounds on the counters\<close>

text \<open>
  Claim C3 as stated fails: the counter that does not gate the pending transition keeps
  counting. After four samples of 45 cm from the initial state the platform is still
  retracted and the no-detection counter is 4, above \<open>DEBOUNCE_COUNT\<close>.
\<close>

theorem counters_bound_counterexample:
  "\<not> platformDeployed (run_samples after_setup [45, 45, 45, 45]) \<and>
   sint (consecutiveNoDetections (run_samples after_setup [45, 45, 45, 45])) = 4 \<and>
   \<not> sint (consecutiveNoDetections (run_samples after_setup [45, 45, 45, 45])) \<le> DEBOUNCE_COUNT"
  by (simp add: eval_defs)

text \<open>
  Claim C3, amended. In every state the loop reaches from the initial state, the counter
  that gates the pending transition (the detection counter while the platform is
  retracted, the no-detection counter while it is deployed) is non-negative and strictly
  below \<open>DEBOUNCE_COUNT\<close>; and after any iteration, from any state, the detection counter
  is zero if the sample was not in the band, and the no-detection counter is zero if the
  sample was not beyond \<open>MAX_DISTANCE\<close>.
\<close>

theorem pending_counter_bounded:
  "(\<not> platformDeployed (run_samples after_setup ds) \<longrightarrow>
      0 \<le> sint (consecutiveDetections (run_samples after_setup ds)) \<and>
      sint (consecutiveDetections (run_samples after_setup ds)) < DEBOUNCE_COUNT) \<and>
   (platformDeployed (run_samples after_setup ds) \<longrightarrow>
      0 \<le> sint (consecutiveNoDetections (run_samples after_setup ds)) \<and>
      sint (consecutiveNoDetections (run_samples after_setup ds)) < DEBOUNCE_COUNT) \<and>
   (\<not> in_band d \<longrightarrow> consecutiveDetections (loop_body d s) = 0) \<and>
   (\<not> beyond_max d \<longrightarrow> consecutiveNoDetections (loop_body d s) = 0)"
proof -
  have reset: "(\<not> in_band d \<longrightarrow> consecutiveDetections (loop_body d s) = 0) \<and>
   (\<not> beyond_max d \<longrightarrow> consecutiveNoDetections (loop_body d s) = 0)"
    by (cases "in_band d"; cases "beyond_max d")
       (simp_all add: loop_body_in_band loop_body_beyond_max loop_body_between)
  from pending_inv_run [of ds] reset show ?thesis
    by (auto simp: pending_inv_def DEBOUNCE_COUNT_def split: if_splits)
qed

theorem pending_counter_bounded_witness:
  "\<not> platformDeployed (run_samples after_setup [18, 18]) \<and>
   sint (consecutiveDetections (run_samples after_setup [18, 18])) < DEBOUNCE_COUNT \<and>
   platformDeployed (run_samples after_setup [18, 18, 18, 30]) \<and>
   sint (consecutiveNoDetections (run_samples after_setup [18, 18, 18, 30])) < DEBOUNCE_COUNT \<and>
   \<not> in_band 30 \<and> consecutiveDetections (loop_body 30 (run_samples after_setup [18, 18])) = 0 \<and>
   \<not> beyond_max 18 \<and>
   consecutiveNoDetections (loop_body 18 (run_samples after_setup [18, 18, 18, 30])) = 0"
proof -
  have h: "\<not> platformDeployed (run_samples after_setup [18, 18])"
    "platformDeployed (run_samples after_setup [18, 18, 18, 30])"
    "\<not> in_band 30" "\<not> beyond_max 18"
    by (simp_all add: eval_defs)
  from h
    pending_counter_bounded [of "[18, 18]" 30 "run_samples after_setup [18, 18]"]
    pending_counter_bounded [of "[18, 18, 18, 30]" 18 "run_samples after_setup [18, 18, 18, 30]"]
  show ?thesis by blast
qed

text \<open>
  The counter that does not gate a transition is not bounded at all: with the platform
  retracted and no train in range it advances on every sample, and after 32768 samples
  the 16-bit value has wrapped to -32768. The platform state does not depend on it.
\<close>

lemma idle_far_run:
  "\<not> platformDeployed s \<Longrightarrow> beyond_max d \<Longrightarrow>
   \<not> platformDeployed (run_samples s (replicate n d)) \<and>
   consecutiveNoDetections (run_samples s (replicate n d)) = consecutiveNoDetections s + of_nat n"
  by (induction n arbitrary: s) (simp_all add: loop_body_beyond_max)

lemma idle_counter_wraps:
  "sint (consecutiveNoDetections (run_samples after_setup (replicate 32768 45))) = - 32768"
proof -
  have "\<not> platformDeployed after_setup" "beyond_max 45"
    by (simp_all add: after_setup_def beyond_max_def MAX_DISTANCE_def)
  from idle_far_run [OF this, of 32768] show ?thesis
    by (simp add: after_setup_def)
qed

subsection \<open>The range sampler\<close>

text \<open>What one iteration of the single-threshold sketch leaves in each global.\<close>

lemma loop_simple_fields:
  "duration (loop_simple pulseIn s) = pulseIn None"
  "distance_long (loop_simple pulseIn s) =
     float_to_long
       (binary32 (binary32 (binary32 (real_of_int (sint (pulseIn None))) * binary32 0.034) / 2))"
  "platformServo (loop_simple pulseIn s) =
     (if 0 < sint (distance_long (loop_simple pulseIn s)) \<and>
         sint (distance_long (loop_simple pulseIn s)) < 25 then 90 else 0)"
  by (simp_all add: loop_simple_def Let_def)

lemma simple_600: "distance_long (loop_simple (\<lambda>timeout. 600) s) = 10"
  by (simp only: loop_simple_fields eval_600)

lemma simple_1800: "distance_long (loop_simple (\<lambda>timeout. 1800) s) = 30"
  by (simp only: loop_simple_fields eval_1800)

lemma simple_1471: "distance_long (loop_simple (\<lambda>timeout. 1471) s) = 25"
  by (simp only: loop_simple_fields eval_1471)

lemma simple_30: "distance_long (loop_simple (\<lambda>timeout. 30) s) = 0"
  by (simp only: loop_simple_fields eval_30)

lemma simple_554647: "distance_long (loop_simple (\<lambda>timeout. 554647) s) = 9429"
  by (simp only: loop_simple_fields eval_554647)

lemma measure_1000: "measureDistance (\<lambda>timeout. 1000) = 8991539 / 2 ^ 19"
  unfolding measureDistance_def Let_def by (simp only: eval_1000) simp

text \<open>
  Claim C4 as stated fails for the single-threshold sketch: with no echo its sampler
  stores distance 0, where the contract asks for the sentinel 999.
\<close>

theorem simple_sampler_counterexample:
  "duration (loop_simple no_echo after_setup_simple) = 0 \<and>
   distance_long (loop_simple no_echo after_setup_simple) = 0 \<and>
   contract_distance (duration (loop_simple no_echo after_setup_simple)) = 999 \<and>
   real_of_int (sint (distance_long (loop_simple no_echo after_setup_simple))) \<noteq>
     contract_distance (duration (loop_simple no_echo after_setup_simple))"
  by (simp add: loop_simple_def no_echo_def float_to_long_def after_setup_simple_def
      contract_distance_def binary32_zero)

text \<open>
  Claim C4, amended. \<open>measureDistance\<close> of the debounced sketch reads the echo with a
  timeout of 30000 microseconds and its result depends on that reading only. When the
  duration is zero it returns the sentinel 999; otherwise it returns the duration times
  0.0343, halved, as binary32 arithmetic computes it, which is within one part in
  \<open>2^21\<close> of the exact value; it never returns zero. The single-threshold sketch does
  not follow that contract: it reads the echo without a timeout argument, has no
  sentinel (no echo gives distance 0), and stores the duration times 0.034, halved,
  computed in binary32 and cut down to a whole number of centimetres, which for an echo
  of up to one second is the exact quotient \<open>17 * duration div 1000\<close> or a neighbour
  of it.
\<close>

theorem measureDistance_contract:
  "(pulseIn (Some 30000) = 0 \<longrightarrow> measureDistance pulseIn = 999) \<and>
   \<bar>measureDistance pulseIn - contract_distance (pulseIn (Some 30000))\<bar>
     \<le> \<bar>contract_distance (pulseIn (Some 30000))\<bar> / 2 ^ 21 \<and>
   measureDistance pulseIn \<noteq> 0 \<and>
   measureDistance pulseIn = measureDistance (\<lambda>timeout. pulseIn (Some 30000)) \<and>
   duration (loop_simple pulseIn t) = pulseIn None \<and>
   distance_long (loop_simple no_echo t) = 0 \<and>
   (0 \<le> sint (pulseIn None) \<and> sint (pulseIn None) \<le> 1000000 \<longrightarrow>
      \<bar>sint (distance_long (loop_simple pulseIn t)) - sint (pulseIn None) * 17 div 1000\<bar> \<le> 1)"
proof -
  define d where "d = pulseIn (Some 30000)"
  have sentinel: "measureDistance pulseIn = 999" if "d = 0"
    using that by (simp add: measureDistance_def d_def)
  have close: "\<bar>measureDistance pulseIn - contract_distance d\<bar> \<le> \<bar>contract_distance d\<bar> / 2 ^ 21"
  proof (cases "d = 0")
    case True
    then show ?thesis by (simp add: sentinel contract_distance_def)
  next
    case False
    then have "measureDistance pulseIn =
        binary32 (binary32 (binary32 (real_of_int (sint d)) * binary32 0.0343) / 2)"
      by (simp add: measureDistance_def d_def Let_def)
    moreover have "contract_distance d = real_of_int (sint d) * 0.0343 / 2"
      using False by (simp add: contract_distance_def)
    ultimately show ?thesis
      by (simp only: measured_error)
  qed
  have "contract_distance d \<noteq> 0"
    by (simp add: contract_distance_def signed_eq_0_iff)
  with close have nonzero: "measureDistance pulseIn \<noteq> 0"
    by (auto simp: abs_if split: if_splits)
  have only: "measureDistance pulseIn = measureDistance (\<lambda>timeout. pulseIn (Some 30000))"
    by (simp add: measureDistance_def)
  have silent: "distance_long (loop_simple no_echo t) = 0"
    by (simp add: loop_simple_fields no_echo_def float_to_long_def binary32_zero)
  have whole: "\<bar>sint (distance_long (loop_simple pulseIn t)) - sint (pulseIn None) * 17 div 1000\<bar> \<le> 1"
    if "0 \<le> sint (pulseIn None)" "sint (pulseIn None) \<le> 1000000"
    unfolding loop_simple_fields using that by (rule simple_whole_cm)
  from sentinel close nonzero only silent whole loop_simple_fields(1) [of pulseIn t]
  show ?thesis unfolding d_def by blast
qed

theorem measureDistance_contract_witness:
  "no_echo (Some 30000) = 0 \<and> measureDistance no_echo = 999 \<and>
   measureDistance (\<lambda>timeout. 1000) = 8991539 / 2 ^ 19 \<and>
   \<bar>measureDistance (\<lambda>timeout. 1000) - 17.15\<bar> \<le> 17.15 / 2 ^ 21 \<and>
   (0::int) \<le> sint (554647 :: 32 word) \<and> sint (554647 :: 32 word) \<le> 1000000 \<and>
   distance_long (loop_simple (\<lambda>timeout. 554647) after_setup_simple) = 9429 \<and>
   \<bar>sint (distance_long (loop_simple (\<lambda>timeout. 554647) after_setup_simple))
      - sint (554647 :: 32 word) * 17 div 1000\<bar> \<le> 1"
proof -
  have h0: "no_echo (Some 30000) = 0"
    by (simp add: no_echo_def)
  have h1: "(0::int) \<le> sint (554647 :: 32 word)" "sint (554647 :: 32 word) \<le> 1000000"
    by simp_all
  have c: "contract_distance 1000 = 17.15"
    by (simp add: contract_distance_def)
  from h0 h1 c measure_1000 simple_554647 [of after_setup_simple]
    measureDistance_contract [of no_echo after_setup_simple]
    measureDistance_contract [of "\<lambda>timeout. 1000" after_setup_simple]
    measureDistance_contract [of "\<lambda>timeout. 554647" after_setup_simple]
  show ?thesis by simp
qed

subsection \<open>End-to-end scenario: deployment\<close>

text \<open>
  Claim C5. With \<open>MIN_DISTANCE = 13\<close>, \<open>THRESHOLD_DISTANCE = 20\<close> and
  \<open>DEBOUNCE_COUNT = 3\<close>, the loop started in the initial state (retracted, both counters
  zero) on the samples 45, 32, 18, 18, 18 is still retracted after each of the first four
  samples and is deployed after the fifth, the third consecutive reading of 18 cm.
\<close>
theorem scenario_deploy:
  "MIN_DISTANCE = 13 \<and> THRESHOLD_DISTANCE = 20 \<and> DEBOUNCE_COUNT = 3 \<and>
   \<not> platformDeployed after_setup \<and>
   consecutiveDetections after_setup = 0 \<and> consecutiveNoDetections after_setup = 0 \<and>
   \<not> platformDeployed (run_samples after_setup [45]) \<and>
   \<not> platformDeployed (run_samples after_setup [45, 32]) \<and>
   \<not> platformDeployed (run_samples after_setup [45, 32, 18]) \<and>
   \<not> platformDeployed (run_samples after_setup [45, 32, 18, 18]) \<and>
   platformDeployed (run_samples after_setup [45, 32, 18, 18, 18])"
  by (simp add: eval_defs)

subsection \<open>End-to-end scenario: retraction\<close>

text \<open>
  Claim C6. With \<open>MAX_DISTANCE = 25\<close> and \<open>DEBOUNCE_COUNT = 3\<close>, the loop started in a
  deployed state with both counters zero on the samples 15, 35, 35, 35 is still deployed
  after each of the first three samples and is retracted after the fourth, the third
  consecutive reading of 35 cm. The reading of 15 cm leaves the no-detection counter at
  zero, whatever state it is processed in.
\<close>
theorem scenario_retract:
  assumes "platformDeployed s"
    and "consecutiveDetections s = 0" and "consecutiveNoDetections s = 0"
  shows "MAX_DISTANCE = 25 \<and> DEBOUNCE_COUNT = 3 \<and>
         platformDeployed (run_samples s [15]) \<and>
         consecutiveNoDetections (run_samples s [15]) = 0 \<and>
         platformDeployed (run_samples s [15, 35]) \<and>
         platformDeployed (run_samples s [15, 35, 35]) \<and>
         \<not> platformDeployed (run_samples s [15, 35, 35, 35]) \<and>
         consecutiveNoDetections (loop_body 15 s') = 0"
  using assms by (simp add: eval_defs Let_def)

theorem scenario_retract_witness:
  "platformDeployed (run_samples after_setup [18, 18, 18]) \<and>
   consecutiveDetections (run_samples after_setup [18, 18, 18]) = 0 \<and>
   consecutiveNoDetections (run_samples after_setup [18, 18, 18]) = 0 \<and>
   platformDeployed (run_samples (run_samples after_setup [18, 18, 18]) [15, 35, 35]) \<and>
   \<not> platformDeployed (run_samples (run_samples after_setup [18, 18, 18]) [15, 35, 35, 35])"
proof -
  have h: "platformDeployed (run_samples after_setup [18, 18, 18])"
    "consecutiveDetections (run_samples after_setup [18, 18, 18]) = 0"
    "consecutiveNoDetections (run_samples after_setup [18, 18, 18]) = 0"
    by (simp_all add: eval_defs)
  from h scenario_retract [OF h] show ?thesis by blast
qed

subsection \<open>The single-threshold policy\<close>

text \<open>
  Claim C7 as stated fails at distance 0: an echo of 30 microseconds (an object half a
  centimetre away) gives distance 0, which is below 25, and the servo is commanded to 0,
  not to 90.
\<close>

theorem simple_threshold_counterexample:
  "sint (distance_long (loop_simple (\<lambda>timeout. 30) after_setup_simple)) = 0 \<and>
   sint (distance_long (loop_simple (\<lambda>timeout. 30) after_setup_simple)) < 25 \<and>
   platformServo (loop_simple (\<lambda>timeout. 30) after_setup_simple) = 0 \<and>
   platformServo (loop_simple (\<lambda>timeout. 30) after_setup_simple) \<noteq> 90"
  by (simp add: loop_simple_fields(3) simple_30)

text \<open>
  Claim C7, amended. In the single-threshold sketch every iteration commands the servo
  to 90 when the distance it computed is strictly between 0 and 25, and to 0 when the
  distance is 0 or less, or 25 or more; the command depends on the current reading only,
  not on the state before (no debounce). An echo of 600 microseconds gives 10 cm and
  deploys at once; an echo of 1800 microseconds on the next iteration gives 30 cm and
  retracts at once.
\<close>

theorem simple_threshold_policy:
  "(0 < sint (distance_long (loop_simple pulseIn s)) \<and>
    sint (distance_long (loop_simple pulseIn s)) < 25
      \<longrightarrow> platformServo (loop_simple pulseIn s) = 90) \<and>
   (sint (distance_long (loop_simple pulseIn s)) \<le> 0 \<or>
    25 \<le> sint (distance_long (loop_simple pulseIn s))
      \<longrightarrow> platformServo (loop_simple pulseIn s) = 0) \<and>
   platformServo (loop_simple pulseIn s) = platformServo (loop_simple pulseIn s') \<and>
   distance_long (loop_simple (\<lambda>timeout. 600) s) = 10 \<and>
   platformServo (loop_simple (\<lambda>timeout. 600) s) = 90 \<and>
   distance_long (loop_simple (\<lambda>timeout. 1800) (loop_simple (\<lambda>timeout. 600) s)) = 30 \<and>
   platformServo (loop_simple (\<lambda>timeout. 1800) (loop_simple (\<lambda>timeout. 600) s)) = 0"
proof -
  have same: "distance_long (loop_simple pulseIn s) = distance_long (loop_simple pulseIn s')"
    by (simp only: loop_simple_fields)
  have policy: "platformServo (loop_simple pulseIn u) =
      (if 0 < sint (distance_long (loop_simple pulseIn u)) \<and>
          sint (distance_long (loop_simple pulseIn u)) < 25 then 90 else 0)" for u
    by (rule loop_simple_fields)
  have "platformServo (loop_simple pulseIn s) = platformServo (loop_simple pulseIn s')"
    by (simp only: policy same)
  moreover have "platformServo (loop_simple (\<lambda>timeout. 600) s) = 90"
    by (simp add: loop_simple_fields(3) simple_600)
  moreover have "platformServo (loop_simple (\<lambda>timeout. 1800) (loop_simple (\<lambda>timeout. 600) s)) = 0"
    by (simp add: loop_simple_fields(3) simple_1800)
  ultimately show ?thesis
    using policy [of s] by (auto simp: simple_600 simple_1800)
qed

theorem simple_threshold_policy_witness:
  "sint (distance_long (loop_simple (\<lambda>timeout. 600) after_setup_simple)) = 10 \<and>
   platformServo (loop_simple (\<lambda>timeout. 600) after_setup_simple) = 90 \<and>
   sint (distance_long (loop_simple (\<lambda>timeout. 1800) (loop_simple (\<lambda>timeout. 600) after_setup_simple))) = 30 \<and>
   platformServo (loop_simple (\<lambda>timeout. 1800) (loop_simple (\<lambda>timeout. 600) after_setup_simple)) = 0 \<and>
   sint (distance_long (loop_simple (\<lambda>timeout. 1471) after_setup_simple)) = 25 \<and>
   platformServo (loop_simple (\<lambda>timeout. 1471) after_setup_simple) = 0"
proof -
  have h: "sint (distance_long (loop_simple (\<lambda>timeout. 600) after_setup_simple)) = 10"
    "sint (distance_long (loop_simple (\<lambda>timeout. 1800) (loop_simple (\<lambda>timeout. 600) after_setup_simple))) = 30"
    "sint (distance_long (loop_simple (\<lambda>timeout. 1471) after_setup_simple)) = 25"
    by (simp_all add: simple_600 simple_1800 simple_1471)
  from h
    simple_threshold_policy [of "\<lambda>timeout. 600" after_setup_simple]
    simple_threshold_policy [of "\<lambda>timeout. 1800" "loop_simple (\<lambda>timeout. 600) after_setup_simple"]
    simple_threshold_policy [of "\<lambda>timeout. 1471" after_setup_simple]
  show ?thesis by simp
qed

subsection \<open>Deploying twice\<close>

text \<open>
  Claim C8. Deploying a platform that is already deployed leaves it deployed:
  \<open>deployPlatform\<close> always ends with \<open>platformDeployed\<close> set, applying it twice or any
  positive number of times gives the state that applying it once gives, and an in-band
  iteration of the loop in a deployed state keeps the state deployed without moving
  the servos.
\<close>
theorem deploy_idempotent:
  "(platformDeployed s \<longrightarrow> platformDeployed (deployPlatform s) = platformDeployed s) \<and>
   platformDeployed (deployPlatform s) \<and>
   deployPlatform (deployPlatform s) = deployPlatform s \<and>
   (deployPlatform ^^ Suc n) s = deployPlatform s \<and>
   (platformDeployed s \<and> in_band d \<longrightarrow>
      platformDeployed (loop_body d s) \<and> servo1 (loop_body d s) = servo1 s \<and>
      servo2 (loop_body d s) = servo2 s)"
proof -
  have twice: "deployPlatform (deployPlatform t) = deployPlatform t" for t
    by (simp add: deployPlatform_eq)
  have "(deployPlatform ^^ Suc n) s = deployPlatform s"
    by (induction n) (simp_all add: twice)
  then show ?thesis
    by (auto simp: twice deployPlatform_eq loop_body_in_band)
qed

theorem deploy_idempotent_witness:
  "platformDeployed (run_samples after_setup [18, 18, 18]) \<and> in_band 18 \<and>
   platformDeployed (deployPlatform (run_samples after_setup [18, 18, 18])) \<and>
   (deployPlatform ^^ Suc 4) (run_samples after_setup [18, 18, 18]) =
      deployPlatform (run_samples after_setup [18, 18, 18]) \<and>
   platformDeployed (loop_body 18 (run_samples after_setup [18, 18, 18])) \<and>
   servo1 (loop_body 18 (run_samples after_setup [18, 18, 18])) = 90"
proof -
  have h: "platformDeployed (run_samples after_setup [18, 18, 18])" "in_band 18"
    "servo1 (run_samples after_setup [18, 18, 18]) = 90"
    by (simp_all add: eval_defs)
  from h deploy_idempotent [of "run_samples after_setup [18, 18, 18]" 4 18]
  show ?thesis by simp
qed

subsection \<open>Samples closer than the detection band\<close>

lemma below_min_between: "d < real_of_int MIN_DISTANCE \<Longrightarrow> \<not> in_band d \<and> \<not> beyond_max d"
  by (simp add: in_band_def beyond_max_def config_defs)

lemma run_below_min:
  "\<forall>d\<in>set ds. d < real_of_int MIN_DISTANCE \<Longrightarrow>
   platformDeployed (run_samples s ds) = platformDeployed s \<and>
   servo1 (run_samples s ds) = servo1 s \<and> servo2 (run_samples s ds) = servo2 s"
proof (induction ds arbitrary: s)
  case Nil
  show ?case by simp
next
  case (Cons d ds)
  then have "d < real_of_int MIN_DISTANCE" and rest: "\<forall>d\<in>set ds. d < real_of_int MIN_DISTANCE"
    by simp_all
  then have "loop_body d s = s\<lparr>consecutiveDetections := 0, consecutiveNoDetections := 0, distance := d\<rparr>"
    by (simp add: below_min_between loop_body_between)
  with Cons.IH [OF rest] show ?case by simp
qed

text \<open>
  Claim C9. A sample strictly below \<open>MIN_DISTANCE\<close> takes the final branch of the loop:
  both counters become zero and the state of the platform does not change in that
  iteration. Over any sequence of such samples, from any state, the platform state and
  the servo positions stay what they were; in particular a retracted platform never
  deploys.
\<close>

theorem too_close_never_deploys:
  "(d < real_of_int MIN_DISTANCE \<longrightarrow>
      consecutiveDetections (loop_body d s) = 0 \<and>
      consecutiveNoDetections (loop_body d s) = 0 \<and>
      platformDeployed (loop_body d s) = platformDeployed s) \<and>
   ((\<forall>x\<in>set ds. x < real_of_int MIN_DISTANCE) \<longrightarrow>
      platformDeployed (run_samples s ds) = platformDeployed s \<and>
      servo1 (run_samples s ds) = servo1 s \<and> servo2 (run_samples s ds) = servo2 s)"
  using run_below_min [of ds s]
  by (auto simp: below_min_between loop_body_between)

theorem too_close_never_deploys_witness:
  "(5::real) < real_of_int MIN_DISTANCE \<and>
   (2::real) < real_of_int MIN_DISTANCE \<and> (12.9::real) < real_of_int MIN_DISTANCE \<and>
   consecutiveDetections (loop_body 5 (run_samples after_setup [18, 18])) = 0 \<and>
   consecutiveNoDetections (loop_body 5 (run_samples after_setup [18, 18])) = 0 \<and>
   \<not> platformDeployed (run_samples after_setup [5, 2, 12.9]) \<and>
   platformDeployed (run_samples (run_samples after_setup [18, 18, 18]) [5, 2, 12.9])"
proof -
  have h1: "(5::real) < real_of_int MIN_DISTANCE"
    by (simp add: MIN_DISTANCE_def)
  have h2: "\<forall>x\<in>set [5, 2, 12.9::real]. x < real_of_int MIN_DISTANCE"
    by (simp add: MIN_DISTANCE_def)
  have st: "\<not> platformDeployed after_setup" "platformDeployed (run_samples after_setup [18, 18, 18])"
    by (simp_all add: eval_defs)
  have h3: "(2::real) < real_of_int MIN_DISTANCE" "(12.9::real) < real_of_int MIN_DISTANCE"
    by (simp_all add: MIN_DISTANCE_def)
  from h1 h2 h3 st
    too_close_never_deploys [of 5 "run_samples after_setup [18, 18]" "[5, 2, 12.9]"]
    too_close_never_deploys [of 5 after_setup "[5, 2, 12.9]"]
    too_close_never_deploys [of 5 "run_samples after_setup [18, 18, 18]" "[5, 2, 12.9]"]
  show ?thesis by blast
qed

subsection \<open>The two counters are never both positive\<close>

lemma loop_body_one_zero:
  "consecutiveDetections (loop_body d s) = 0 \<or> consecutiveNoDetections (loop_body d s) = 0"
  by (simp add: loop_body_def Let_def)

text \<open>
  Claim C10. After every iteration of the loop, from any state, at least one of the two
  counters is zero; hence in every state reached from the initial state at least one of
  them is zero, and the two are never positive at the same time.
\<close>

theorem counters_exclusive:
  "(consecutiveDetections (loop_body d s) = 0 \<or> consecutiveNoDetections (loop_body d s) = 0) \<and>
   (consecutiveDetections (run_samples after_setup ds) = 0 \<or>
    consecutiveNoDetections (run_samples after_setup ds) = 0) \<and>
   \<not> (0 < sint (consecutiveDetections (run_samples after_setup ds)) \<and>
      0 < sint (consecutiveNoDetections (run_samples after_setup ds)))"
proof -
  have run: "consecutiveDetections (run_samples after_setup ds) = 0 \<or>
    consecutiveNoDetections (run_samples after_setup ds) = 0"
  proof (cases ds rule: rev_cases)
    case Nil
    then show ?thesis by (simp add: after_setup_def)
  next
    case (snoc ds' d')
    then show ?thesis by (simp add: run_samples_snoc loop_body_one_zero)
  qed
  then have "\<not> (0 < sint (consecutiveDetections (run_samples after_setup ds)) \<and>
      0 < sint (consecutiveNoDetections (run_samples after_setup ds)))"
    by auto
  with run loop_body_one_zero [of d s] show ?thesis by blast
qed

end
